theory Spec2Isabelle
  imports Main "HOL-Library.Sublist"
begin

section \<open>The report mailer \<^verbatim>\<open>send-email.py\<close>\<close>

text \<open>
  A shallow embedding of \<^verbatim>\<open>src/.github/workflows/send-email.py\<close>: the function
  \<^verbatim>\<open>send_discovery_email\<close> (lines 16-97) and the script body under
  \<^verbatim>\<open>__main__\<close> (lines 99-113).

  A Python \<^verbatim>\<open>str\<close> is a \<^typ>\<open>string\<close>; a character outside ASCII stands as the
  bytes of its UTF-8 encoding, so that \<open>sublist\<close> (contiguous substring) and
  \<open>@\<close> mean what \<^verbatim>\<open>in\<close> and \<^verbatim>\<open>+\<close> mean on the Python strings. A
  \<^verbatim>\<open>bytes\<close> value is a \<^typ>\<open>string\<close> as well.

  The exceptions of the model are the instances of \<^verbatim>\<open>Exception\<close> that opening and
  reading the file and the SMTP calls raise; \<^verbatim>\<open>print\<close> and the clock do not raise.
  Interrupts delivered from outside (\<^verbatim>\<open>KeyboardInterrupt\<close>) are not part of it.
\<close>

subsection \<open>The pictographs of the source text\<close>

definition microphone :: string where
  "microphone = [CHR 0xF0, CHR 0x9F, CHR 0x8E, CHR 0xA4]"

definition musical_note :: string where
  "musical_note = [CHR 0xF0, CHR 0x9F, CHR 0x8E, CHR 0xB5]"

definition bar_chart :: string where
  "bar_chart = [CHR 0xF0, CHR 0x9F, CHR 0x93, CHR 0x8A]"

definition calendar :: string where
  "calendar = [CHR 0xF0, CHR 0x9F, CHR 0x93, CHR 0x85]"

definition magnifier :: string where
  "magnifier = [CHR 0xF0, CHR 0x9F, CHR 0x94, CHR 0x8D]"

definition fire :: string where
  "fire = [CHR 0xF0, CHR 0x9F, CHR 0x94, CHR 0xA5]"

definition star :: string where
  "star = [CHR 0xE2, CHR 0xAD, CHR 0x90]"

definition light_bulb :: string where
  "light_bulb = [CHR 0xF0, CHR 0x9F, CHR 0x92, CHR 0xA1]"

definition paperclip :: string where
  "paperclip = [CHR 0xF0, CHR 0x9F, CHR 0x93, CHR 0x8E]"

definition sparkles :: string where
  "sparkles = [CHR 0xE2, CHR 0x9C, CHR 0xA8]"

definition check_mark :: string where
  "check_mark = [CHR 0xE2, CHR 0x9C, CHR 0x85]"

definition cross_mark :: string where
  "cross_mark = [CHR 0xE2, CHR 0x9D, CHR 0x8C]"

subsection \<open>Library functions the script calls\<close>

text \<open>
  \<^verbatim>\<open>datetime\<close>: the fields the two format strings of the script read. Python keeps
  \<open>1 \<le> year \<le> 9999\<close>, \<open>1 \<le> month \<le> 12\<close> and \<open>1 \<le> day \<le> 31\<close>.
\<close>

record datetime =
  year :: nat
  month :: nat
  day :: nat

definition valid_datetime :: "datetime \<Rightarrow> bool" where
  "valid_datetime d =
     (1 \<le> year d \<and> year d \<le> 9999 \<and> 1 \<le> month d \<and> month d \<le> 12 \<and> 1 \<le> day d \<and> day d \<le> 31)"

definition digit_char :: "nat \<Rightarrow> char" where
  "digit_char n = char_of (48 + n)"

text \<open>The \<open>w\<close> lowest decimal digits of \<open>n\<close>: the zero-padded decimal of \<open>n < 10 ^ w\<close>.\<close>

primrec zero_padded :: "nat \<Rightarrow> nat \<Rightarrow> string" where
  "zero_padded 0 n = []"
| "zero_padded (Suc w) n = zero_padded w (n div 10) @ [digit_char (n mod 10)]"

text \<open>
  \<^verbatim>\<open>datetime.strftime\<close> for the directives the script uses (\<^verbatim>\<open>%Y\<close>, \<^verbatim>\<open>%m\<close>,
  \<^verbatim>\<open>%d\<close>); every other character is copied.
\<close>

fun strftime :: "string \<Rightarrow> datetime \<Rightarrow> string" where
  "strftime (c # x # fmt) d =
     (if c = CHR ''%'' \<and> x = CHR ''Y'' then zero_padded 4 (year d) @ strftime fmt d
      else if c = CHR ''%'' \<and> x = CHR ''m'' then zero_padded 2 (month d) @ strftime fmt d
      else if c = CHR ''%'' \<and> x = CHR ''d'' then zero_padded 2 (day d) @ strftime fmt d
      else c # strftime (x # fmt) d)"
| "strftime fmt d = fmt"

text \<open>\<^verbatim>\<open>os.path.basename\<close> (posixpath): what follows the last \<^verbatim>\<open>/\<close>.\<close>

definition basename :: "string \<Rightarrow> string" where
  "basename p = rev (takeWhile (\<lambda>c. c \<noteq> CHR ''/'') (rev p))"

text \<open>
  \<^verbatim>\<open>base64.encodebytes\<close>, which \<^verbatim>\<open>email.encoders.encode_base64\<close> applies to the
  payload: every 57 bytes give one line of 76 characters, closed by a newline.
\<close>

definition b64_char :: "nat \<Rightarrow> char" where
  "b64_char i = ''ABCDEFGHIJKLMNOPQRSTUVWXYZabcdefghijklmnopqrstuvwxyz0123456789+/'' ! (i mod 64)"

fun b64_groups :: "string \<Rightarrow> string" where
  "b64_groups (a # b # c # bs) =
     (let n = of_char a * 65536 + of_char b * 256 + (of_char c :: nat)
      in [b64_char (n div 262144), b64_char (n div 4096), b64_char (n div 64), b64_char n]
         @ b64_groups bs)"
| "b64_groups [a, b] =
     (let n = of_char a * 65536 + of_char b * (256 :: nat)
      in [b64_char (n div 262144), b64_char (n div 4096), b64_char (n div 64), CHR ''=''])"
| "b64_groups [a] =
     (let n = of_char a * (65536 :: nat)
      in [b64_char (n div 262144), b64_char (n div 4096), CHR ''='', CHR ''=''])"
| "b64_groups [] = []"

definition b2a_base64 :: "string \<Rightarrow> string" where
  "b2a_base64 chunk = b64_groups chunk @ [CHR 0x0A]"

function encodebytes :: "string \<Rightarrow> string" where
  "encodebytes s = (if s = [] then [] else b2a_base64 (take 57 s) @ encodebytes (drop 57 s))"
  by pat_completeness auto
termination
  by (relation "measure length") auto

subsection \<open>The message\<close>

text \<open>
  A part of the message (\<^verbatim>\<open>MIMEText\<close>, \<^verbatim>\<open>MIMEBase\<close>): its content type, its
  payload and the headers added to it, in order. \<^verbatim>\<open>MIMEText\<close> keeps the text it was
  given; the charset the library chooses for it is not modelled.
\<close>

record mime_part =
  content_type :: string
  payload :: string
  part_headers :: "(string \<times> string) list"

text \<open>The \<^verbatim>\<open>MIMEMultipart\<close> container: its headers and its attached parts, in order.\<close>

record message =
  headers :: "(string \<times> string) list"
  parts :: "mime_part list"

definition MIMEMultipart :: message where
  "MIMEMultipart = \<lparr>headers = [], parts = []\<rparr>"

definition MIMEText :: "string \<Rightarrow> string \<Rightarrow> mime_part" where
  "MIMEText text subtype =
     \<lparr>content_type = ''text/'' @ subtype, payload = text, part_headers = []\<rparr>"

definition MIMEBase :: "string \<Rightarrow> string \<Rightarrow> mime_part" where
  "MIMEBase maintype subtype =
     \<lparr>content_type = maintype @ ''/'' @ subtype, payload = [], part_headers = []\<rparr>"

text \<open>\<^verbatim>\<open>msg[name] = val\<close> appends a header; it replaces none.\<close>

definition set_item :: "string \<Rightarrow> string \<Rightarrow> message \<Rightarrow> message" where
  "set_item name val msg = msg\<lparr>headers := headers msg @ [(name, val)]\<rparr>"

definition get_all :: "string \<Rightarrow> message \<Rightarrow> string list" where
  "get_all name msg = map snd (filter (\<lambda>h. fst h = name) (headers msg))"

definition attach :: "mime_part \<Rightarrow> message \<Rightarrow> message" where
  "attach part msg = msg\<lparr>parts := parts msg @ [part]\<rparr>"

definition set_payload :: "string \<Rightarrow> mime_part \<Rightarrow> mime_part" where
  "set_payload data part = part\<lparr>payload := data\<rparr>"

definition encode_base64 :: "mime_part \<Rightarrow> mime_part" where
  "encode_base64 part =
     part\<lparr>payload := encodebytes (payload part),
          part_headers := part_headers part @ [(''Content-Transfer-Encoding'', ''base64'')]\<rparr>"

definition add_header :: "string \<Rightarrow> string \<Rightarrow> mime_part \<Rightarrow> mime_part" where
  "add_header name val part = part\<lparr>part_headers := part_headers part @ [(name, val)]\<rparr>"

subsection \<open>The world the script runs in\<close>

text \<open>
  An exception (an instance of \<^verbatim>\<open>Exception\<close>, as the file and SMTP calls raise) with the
  text \<^verbatim>\<open>str(e)\<close> gives for it.
\<close>

datatype exn = Exception string

fun str :: "exn \<Rightarrow> string" where
  "str (Exception s) = s"

text \<open>
  The server object of an attempt: \<^verbatim>\<open>smtplib.SMTP_SSL(host, port)\<close> or
  \<^verbatim>\<open>smtplib.SMTP(host, port)\<close>.
\<close>

datatype server = SMTP_SSL (host: string) (port: nat) | SMTP (host: string) (port: nat)

datatype net_call =
    Connect server
  | Starttls server
  | Login server string string
  | Send_message server message
  | Quit server

datatype event = Print string | Net net_call

text \<open>
  What the script cannot decide is a field of the world: whether a path exists, what
  opening and reading a file gives, what the \<open>n\<close>-th reading of the clock gives, and
  how the network answers each call (\<open>None\<close>: the call returns; \<open>Some e\<close>: it raises
  \<open>e\<close>). What the script does to the world is the other two fields: the number of clock
  readings so far, and the trace of lines printed and network calls made, in order.
\<close>

record world =
  path_exists :: "string \<Rightarrow> bool"
  read_file :: "string \<Rightarrow> exn + string"
  now :: "nat \<Rightarrow> datetime"
  smtp :: "net_call \<Rightarrow> exn option"
  clock_reads :: nat
  trace :: "event list"

type_synonym 'a io = "world \<Rightarrow> (exn + 'a) \<times> world"

definition return :: "'a \<Rightarrow> 'a io" where
  "return x = (\<lambda>w. (Inr x, w))"

text \<open>Sequencing: an exception of the first statement skips the rest.\<close>

definition bind :: "'a io \<Rightarrow> ('a \<Rightarrow> 'b io) \<Rightarrow> 'b io" where
  "bind m f = (\<lambda>w. case m w of (Inl e, w') \<Rightarrow> (Inl e, w') | (Inr x, w') \<Rightarrow> f x w')"

text \<open>\<^verbatim>\<open>try: body except Exception as e: handler\<close>.\<close>

definition try_except :: "'a io \<Rightarrow> (exn \<Rightarrow> 'a io) \<Rightarrow> 'a io" where
  "try_except body handler =
     (\<lambda>w. case body w of (Inl e, w') \<Rightarrow> handler e w' | (Inr x, w') \<Rightarrow> (Inr x, w'))"

definition print :: "string \<Rightarrow> unit io" where
  "print s = (\<lambda>w. (Inr (), w\<lparr>trace := trace w @ [Print s]\<rparr>))"

definition datetime_now :: "datetime io" where
  "datetime_now = (\<lambda>w. (Inr (now w (clock_reads w)), w\<lparr>clock_reads := Suc (clock_reads w)\<rparr>))"

text \<open>\<^verbatim>\<open>with open(path, 'rb') as f: f.read()\<close>.\<close>

definition open_read :: "string \<Rightarrow> string io" where
  "open_read path = (\<lambda>w. (read_file w path, w))"

text \<open>A network call is recorded in the trace whether it returns or raises.\<close>

definition net :: "net_call \<Rightarrow> unit io" where
  "net c =
     (\<lambda>w. ((case smtp w c of None \<Rightarrow> Inr () | Some e \<Rightarrow> Inl e), w\<lparr>trace := trace w @ [Net c]\<rparr>))"

subsection \<open>\<^verbatim>\<open>send_discovery_email\<close>\<close>

definition recipient :: string where
  "recipient = ''yahalom.assets@gmail.com''"

definition smtp_host :: string where
  "smtp_host = ''smtp.gmail.com''"

text \<open>The body template of lines 28-57, with its two fields filled in.\<close>

definition body_text :: "string \<Rightarrow> string \<Rightarrow> string" where
  "body_text report_file date = concat (map (\<lambda>l. l @ [CHR 0x0A])
     [''Hi!'',
      '''',
      ''The voice effect discovery has completed! '' @ musical_note,
      '''',
      bar_chart @ '' Discovery Report: '' @ report_file,
      calendar @ '' Date: '' @ date,
      magnifier @ '' Effects Analyzed: 10+'',
      '''',
      fire @ '' Top Trending:'',
      ''1. '' @ star @ star @ star @ star @ star @ '' Anime Voice Filter (Very High Priority)'',
      ''2. '' @ star @ star @ star @ star @ '' Demon/Devil Voice (Easy Implementation)'',
      ''3. '' @ star @ star @ star @ star @ '' Auto-Tune Effect (High Demand)'',
      ''4. '' @ star @ star @ star @ '' Ghost Voice (Quick Win)'',
      ''5. '' @ star @ star @ star @ '' Baby Voice (Very Easy)'',
      '''',
      light_bulb @ '' Quick Action Items:'',
      ''1. Review the attached report'',
      ''2. Select 1-2 effects to implement'',
      ''3. Run: /create-voice-effect [effect-name]'',
      '''',
      paperclip @ '' Full report attached with complete DSP specifications!'',
      '''',
      ''Next discovery: 3 days from now'',
      '''',
      ''Happy coding! '' @ microphone @ sparkles,
      '''',
      ''---'',
      ''Voice Discovery Bot'',
      ''Automated every 3 days''])"

text \<open>Lines 19-70: the message is built, and the report attached if it can be read.\<close>

definition compose :: "string \<Rightarrow> string \<Rightarrow> message io" where
  "compose report_file sender_email =
     (let msg = MIMEMultipart;
          msg = set_item ''From'' (''Voice Discovery Bot <'' @ sender_email @ ''>'') msg;
          msg = set_item ''To'' recipient msg
      in bind datetime_now (\<lambda>d1.
         let msg = set_item ''Subject''
               (microphone @ '' Voice Effect Discovery Report - '' @ strftime ''%Y%m%d'' d1) msg
         in bind datetime_now (\<lambda>d2.
            let body = body_text (basename report_file) (strftime ''%Y-%m-%d'' d2);
                msg = attach (MIMEText body ''plain'') msg
            in try_except
                 (bind (open_read report_file) (\<lambda>data.
                    let part = MIMEBase ''application'' ''octet-stream'';
                        part = set_payload data part;
                        part = encode_base64 part;
                        part = add_header ''Content-Disposition''
                                 (''attachment; filename='' @ basename report_file) part
                    in return (attach part msg)))
                 (\<lambda>e. bind (print (''Warning: Could not attach file: '' @ str e)) (\<lambda>_.
                      return msg)))))"

text \<open>Lines 74-83: the body of the outer \<^verbatim>\<open>try\<close>, implicit TLS on port 465.\<close>

definition attempt_ssl :: "message \<Rightarrow> string \<Rightarrow> string \<Rightarrow> bool io" where
  "attempt_ssl msg sender_email sender_password =
     bind (print ''Connecting to Gmail SMTP server...'') (\<lambda>_.
     let server = SMTP_SSL smtp_host 465 in
     bind (net (Connect server)) (\<lambda>_.
     bind (print ''Connected! Logging in...'') (\<lambda>_.
     bind (net (Login server sender_email sender_password)) (\<lambda>_.
     bind (print ''Logged in! Sending email...'') (\<lambda>_.
     bind (net (Send_message server msg)) (\<lambda>_.
     bind (net (Quit server)) (\<lambda>_.
     bind (print (check_mark @ '' Email sent successfully to '' @ recipient @ ''!'')) (\<lambda>_.
     return True))))))))"

text \<open>Lines 88-94: the body of the inner \<^verbatim>\<open>try\<close>, STARTTLS on port 587.\<close>

definition attempt_starttls :: "message \<Rightarrow> string \<Rightarrow> string \<Rightarrow> bool io" where
  "attempt_starttls msg sender_email sender_password =
     (let server = SMTP smtp_host 587 in
      bind (net (Connect server)) (\<lambda>_.
      bind (net (Starttls server)) (\<lambda>_.
      bind (net (Login server sender_email sender_password)) (\<lambda>_.
      bind (net (Send_message server msg)) (\<lambda>_.
      bind (net (Quit server)) (\<lambda>_.
      bind (print (check_mark @ '' Email sent successfully to '' @ recipient
                   @ '' via STARTTLS!'')) (\<lambda>_.
      return True)))))))"

text \<open>Lines 72-97: the two attempts, the second inside the handler of the first.\<close>

definition deliver :: "message \<Rightarrow> string \<Rightarrow> string \<Rightarrow> bool io" where
  "deliver msg sender_email sender_password =
     try_except (attempt_ssl msg sender_email sender_password)
       (\<lambda>e. bind (print (cross_mark @ '' Error sending email via SSL (port 465): '' @ str e)) (\<lambda>_.
             bind (print ''Trying STARTTLS (port 587)...'') (\<lambda>_.
             try_except (attempt_starttls msg sender_email sender_password)
               (\<lambda>e2. bind (print (cross_mark @ '' Error sending email via STARTTLS (port 587): ''
                                  @ str e2)) (\<lambda>_.
                      return False)))))"

definition send_discovery_email :: "string \<Rightarrow> string \<Rightarrow> string \<Rightarrow> bool io" where
  "send_discovery_email report_file sender_email sender_password =
     bind (compose report_file sender_email) (\<lambda>msg.
     deliver msg sender_email sender_password)"

subsection \<open>The script body\<close>

text \<open>
  Lines 99-113. \<open>argv\<close> is \<^verbatim>\<open>sys.argv\<close>, the program's name first; the value returned
  is the status given to \<^verbatim>\<open>sys.exit\<close>.
\<close>

definition main :: "string list \<Rightarrow> int io" where
  "main argv =
     (if length argv \<noteq> 4 then
        bind (print ''Usage: send-email.py <report_file> <sender_email> <sender_password>'') (\<lambda>_.
        return 1)
      else
        let report_file = argv ! 1;
            sender_email = argv ! 2;
            sender_password = argv ! 3
        in (\<lambda>w.
          if \<not> path_exists w report_file then
            bind (print (cross_mark @ '' Report file not found: '' @ report_file)) (\<lambda>_.
            return 1) w
          else
            bind (send_discovery_email report_file sender_email sender_password) (\<lambda>success.
            return (if success then 0 else 1)) w))"

subsection \<open>What a run did\<close>

text \<open>The events a statement added to the trace, run from the world \<open>w\<close>.\<close>

definition events :: "'a io \<Rightarrow> world \<Rightarrow> event list" where
  "events m w = drop (length (trace w)) (trace (snd (m w)))"

definition result :: "'a io \<Rightarrow> world \<Rightarrow> exn + 'a" where
  "result m w = fst (m w)"

fun net_calls :: "event list \<Rightarrow> net_call list" where
  "net_calls [] = []"
| "net_calls (Net c # es) = c # net_calls es"
| "net_calls (Print s # es) = net_calls es"

fun connects :: "event list \<Rightarrow> server list" where
  "connects [] = []"
| "connects (Net (Connect s) # es) = s # connects es"
| "connects (e # es) = connects es"

fun sent :: "event list \<Rightarrow> message list" where
  "sent [] = []"
| "sent (Net (Send_message s m) # es) = m # sent es"
| "sent (e # es) = sent es"

text \<open>An attempt succeeds when each of its calls returns.\<close>

definition ssl_succeeds :: "world \<Rightarrow> message \<Rightarrow> string \<Rightarrow> string \<Rightarrow> bool" where
  "ssl_succeeds w msg sender_email sender_password =
     (smtp w (Connect (SMTP_SSL smtp_host 465)) = None
      \<and> smtp w (Login (SMTP_SSL smtp_host 465) sender_email sender_password) = None
      \<and> smtp w (Send_message (SMTP_SSL smtp_host 465) msg) = None
      \<and> smtp w (Quit (SMTP_SSL smtp_host 465)) = None)"

definition starttls_succeeds :: "world \<Rightarrow> message \<Rightarrow> string \<Rightarrow> string \<Rightarrow> bool" where
  "starttls_succeeds w msg sender_email sender_password =
     (smtp w (Connect (SMTP smtp_host 587)) = None
      \<and> smtp w (Starttls (SMTP smtp_host 587)) = None
      \<and> smtp w (Login (SMTP smtp_host 587) sender_email sender_password) = None
      \<and> smtp w (Send_message (SMTP smtp_host 587) msg) = None
      \<and> smtp w (Quit (SMTP smtp_host 587)) = None)"

text \<open>What the handlers of the two attempts print.\<close>

definition fallback_notice :: "exn \<Rightarrow> event list" where
  "fallback_notice e =
     [Print (cross_mark @ '' Error sending email via SSL (port 465): '' @ str e),
      Print ''Trying STARTTLS (port 587)...'']"

definition failure_notice :: "exn \<Rightarrow> event list" where
  "failure_notice e = [Print (cross_mark @ '' Error sending email via STARTTLS (port 587): '' @ str e)]"

text \<open>
  A string is the decimal numeral of \<open>n\<close> in \<open>k\<close> digits: it has \<open>k\<close> characters,
  each of them a digit, and read in base ten it is \<open>n\<close>.
\<close>

definition is_digit :: "char \<Rightarrow> bool" where
  "is_digit c = (48 \<le> (of_char c :: nat) \<and> (of_char c :: nat) \<le> 57)"

definition decimal_value :: "string \<Rightarrow> nat" where
  "decimal_value s = foldl (\<lambda>n c. 10 * n + (of_char c - 48)) 0 s"

definition decimal_of_width :: "nat \<Rightarrow> nat \<Rightarrow> string \<Rightarrow> bool" where
  "decimal_of_width k n s = (length s = k \<and> list_all is_digit s \<and> decimal_value s = n)"

text \<open>An event with the password of a \<^verbatim>\<open>login\<close> call blanked.\<close>

fun erase_password :: "event \<Rightarrow> event" where
  "erase_password (Net (Login s user password)) = Net (Login s user [])"
| "erase_password e = e"

subsection \<open>Sample worlds\<close>

text \<open>
  Worlds for the concrete runs below: the clock shows 7 March 2024; the relay accepts
  every call, refuses the implicit-TLS connection, rejects every login, or drops the
  implicit-TLS connection at \<^verbatim>\<open>quit\<close>.
\<close>

definition march_7 :: datetime where
  "march_7 = \<lparr>year = 2024, month = 3, day = 7\<rparr>"

definition accept_all :: "net_call \<Rightarrow> exn option" where
  "accept_all c = None"

fun refuse_ssl :: "net_call \<Rightarrow> exn option" where
  "refuse_ssl (Connect (SMTP_SSL h p)) = Some (Exception ''Connection refused'')"
| "refuse_ssl c = None"

fun reject_login :: "net_call \<Rightarrow> exn option" where
  "reject_login (Login s u p) = Some (Exception ''Username and Password not accepted'')"
| "reject_login c = None"

fun drop_on_quit :: "net_call \<Rightarrow> exn option" where
  "drop_on_quit (Quit (SMTP_SSL h p)) = Some (Exception ''Connection unexpectedly closed'')"
| "drop_on_quit c = None"

definition world_with :: "bool \<Rightarrow> exn + string \<Rightarrow> (net_call \<Rightarrow> exn option) \<Rightarrow> world" where
  "world_with there content answer =
     \<lparr>path_exists = (\<lambda>p. there), read_file = (\<lambda>p. content), now = (\<lambda>n. march_7),
      smtp = answer, clock_reads = 0, trace = []\<rparr>"

section \<open>Properties\<close>

subsection \<open>Running the statements\<close>

declare strftime.simps [simp del]
declare encodebytes.simps [simp del]

lemma bind_apply: "bind m f w = (case m w of (Inl e, w') \<Rightarrow> (Inl e, w') | (Inr x, w') \<Rightarrow> f x w')"
  by (simp add: bind_def)

lemma return_apply: "return x w = (Inr x, w)"
  by (simp add: return_def)

lemma print_apply: "print s w = (Inr (), w\<lparr>trace := trace w @ [Print s]\<rparr>)"
  by (simp add: print_def)

lemma net_apply: "net c w = ((case smtp w c of None \<Rightarrow> Inr () | Some e \<Rightarrow> Inl e), w\<lparr>trace := trace w @ [Net c]\<rparr>)"
  by (simp add: net_def)

lemma try_except_apply: "try_except body handler w = (case body w of (Inl e, w') \<Rightarrow> handler e w' | (Inr x, w') \<Rightarrow> (Inr x, w'))"
  by (simp add: try_except_def)

lemma datetime_now_apply: "datetime_now w = (Inr (now w (clock_reads w)), w\<lparr>clock_reads := Suc (clock_reads w)\<rparr>)"
  by (simp add: datetime_now_def)

lemma open_read_apply: "open_read path w = (read_file w path, w)"
  by (simp add: open_read_def)

lemmas io_simps = bind_apply return_apply print_apply net_apply try_except_apply datetime_now_apply open_read_apply

lemma run_eq: "m w = (result m w, snd (m w))"
  by (simp add: result_def)

lemma attempt_ssl_frame:
  "snd (attempt_ssl msg se sp w) = w\<lparr>trace := trace w @ events (attempt_ssl msg se sp) w\<rparr>"
  by (simp add: events_def attempt_ssl_def io_simps Let_def split: option.split)

lemma attempt_starttls_frame:
  "snd (attempt_starttls msg se sp w) = w\<lparr>trace := trace w @ events (attempt_starttls msg se sp) w\<rparr>"
  by (simp add: events_def attempt_starttls_def io_simps Let_def split: option.split)

lemma attempt_ssl_indep:
  "smtp w' = smtp w \<Longrightarrow> result (attempt_ssl msg se sp) w' = result (attempt_ssl msg se sp) w
     \<and> events (attempt_ssl msg se sp) w' = events (attempt_ssl msg se sp) w"
  by (simp add: result_def events_def attempt_ssl_def io_simps Let_def split: option.split)

lemma attempt_starttls_indep:
  "smtp w' = smtp w \<Longrightarrow> result (attempt_starttls msg se sp) w' = result (attempt_starttls msg se sp) w
     \<and> events (attempt_starttls msg se sp) w' = events (attempt_starttls msg se sp) w"
  by (simp add: result_def events_def attempt_starttls_def io_simps Let_def split: option.split)

lemma attempt_ssl_result:
  "result (attempt_ssl msg se sp) w = Inr b \<longleftrightarrow> b \<and> ssl_succeeds w msg se sp"
  by (auto simp add: result_def attempt_ssl_def ssl_succeeds_def io_simps Let_def split: option.split)

lemma attempt_starttls_result:
  "result (attempt_starttls msg se sp) w = Inr b \<longleftrightarrow> b \<and> starttls_succeeds w msg se sp"
  by (auto simp add: result_def attempt_starttls_def starttls_succeeds_def io_simps Let_def split: option.split)

lemma attempt_ssl_upd:
  "result (attempt_ssl msg se sp) (w\<lparr>trace := t\<rparr>) = result (attempt_ssl msg se sp) w"
  "events (attempt_ssl msg se sp) (w\<lparr>trace := t\<rparr>) = events (attempt_ssl msg se sp) w"
  "result (attempt_ssl msg se sp) (w\<lparr>clock_reads := n\<rparr>) = result (attempt_ssl msg se sp) w"
  "events (attempt_ssl msg se sp) (w\<lparr>clock_reads := n\<rparr>) = events (attempt_ssl msg se sp) w"
  using attempt_ssl_indep [of "w\<lparr>trace := t\<rparr>" w msg se sp]
    attempt_ssl_indep [of "w\<lparr>clock_reads := n\<rparr>" w msg se sp]
  by simp_all

lemma attempt_starttls_upd:
  "result (attempt_starttls msg se sp) (w\<lparr>trace := t\<rparr>) = result (attempt_starttls msg se sp) w"
  "events (attempt_starttls msg se sp) (w\<lparr>trace := t\<rparr>) = events (attempt_starttls msg se sp) w"
  "result (attempt_starttls msg se sp) (w\<lparr>clock_reads := n\<rparr>) = result (attempt_starttls msg se sp) w"
  "events (attempt_starttls msg se sp) (w\<lparr>clock_reads := n\<rparr>) = events (attempt_starttls msg se sp) w"
  using attempt_starttls_indep [of "w\<lparr>trace := t\<rparr>" w msg se sp]
    attempt_starttls_indep [of "w\<lparr>clock_reads := n\<rparr>" w msg se sp]
  by simp_all

lemma attempt_ssl_run:
  "attempt_ssl msg se sp w =
     (result (attempt_ssl msg se sp) w, w\<lparr>trace := trace w @ events (attempt_ssl msg se sp) w\<rparr>)"
  using run_eq [of "attempt_ssl msg se sp" w] by (simp only: attempt_ssl_frame)

lemma attempt_starttls_run:
  "attempt_starttls msg se sp (w\<lparr>trace := t\<rparr>) =
     (result (attempt_starttls msg se sp) w,
      w\<lparr>trace := t @ events (attempt_starttls msg se sp) w\<rparr>)"
  using run_eq [of "attempt_starttls msg se sp" "w\<lparr>trace := t\<rparr>"]
    attempt_starttls_indep [of "w\<lparr>trace := t\<rparr>" w msg se sp]
  by (simp add: attempt_starttls_frame)

lemma deliver_run:
  "deliver msg se sp w =
     (case result (attempt_ssl msg se sp) w of
        Inr b \<Rightarrow> (Inr b, w\<lparr>trace := trace w @ events (attempt_ssl msg se sp) w\<rparr>)
      | Inl e \<Rightarrow>
         (case result (attempt_starttls msg se sp) w of
            Inr b \<Rightarrow> (Inr b, w\<lparr>trace := trace w @ events (attempt_ssl msg se sp) w @ fallback_notice e
                                      @ events (attempt_starttls msg se sp) w\<rparr>)
          | Inl e2 \<Rightarrow> (Inr False, w\<lparr>trace := trace w @ events (attempt_ssl msg se sp) w @ fallback_notice e
                                      @ events (attempt_starttls msg se sp) w @ failure_notice e2\<rparr>)))"
  by (simp add: deliver_def try_except_apply bind_apply print_apply return_apply attempt_ssl_run
        attempt_starttls_run attempt_starttls_upd attempt_ssl_upd fallback_notice_def failure_notice_def split: sum.split)

lemma net_calls_append: "net_calls (xs @ ys) = net_calls xs @ net_calls ys"
  by (induction xs rule: net_calls.induct) simp_all

lemma connects_append: "connects (xs @ ys) = connects xs @ connects ys"
  by (induction xs rule: connects.induct) simp_all

lemma sent_append: "sent (xs @ ys) = sent xs @ sent ys"
  by (induction xs rule: sent.induct) simp_all

lemma notices_silent:
  "connects (fallback_notice e) = []" "connects (failure_notice e) = []"
  "sent (fallback_notice e) = []" "sent (failure_notice e) = []"
  "net_calls (fallback_notice e) = []" "net_calls (failure_notice e) = []"
  by (simp_all add: fallback_notice_def failure_notice_def)

lemma deliver_events:
  "events (deliver msg se sp) w =
     events (attempt_ssl msg se sp) w @
     (case result (attempt_ssl msg se sp) w of
        Inr b \<Rightarrow> []
      | Inl e \<Rightarrow> fallback_notice e @ events (attempt_starttls msg se sp) w @
          (case result (attempt_starttls msg se sp) w of Inr b \<Rightarrow> [] | Inl e2 \<Rightarrow> failure_notice e2))"
  by (simp add: events_def [of "deliver msg se sp"] deliver_run split: sum.split)

lemma deliver_result:
  "result (deliver msg se sp) w = Inr (ssl_succeeds w msg se sp \<or> starttls_succeeds w msg se sp)"
proof (cases "result (attempt_ssl msg se sp) w")
  case (Inr b)
  then show ?thesis
    using attempt_ssl_result [of msg se sp w b]
    by (simp add: result_def [of "deliver msg se sp"] deliver_run)
next
  case (Inl e)
  then have no1: "\<not> ssl_succeeds w msg se sp"
    using attempt_ssl_result [of msg se sp w True] by auto
  show ?thesis
  proof (cases "result (attempt_starttls msg se sp) w")
    case (Inr b)
    then show ?thesis
      using Inl no1 attempt_starttls_result [of msg se sp w b]
      by (simp add: result_def [of "deliver msg se sp"] deliver_run)
  next
    case Inl2: (Inl e2)
    then have "\<not> starttls_succeeds w msg se sp"
      using attempt_starttls_result [of msg se sp w True] by auto
    then show ?thesis
      using Inl Inl2 no1 by (simp add: result_def [of "deliver msg se sp"] deliver_run)
  qed
qed

lemma deliver_frame:
  "deliver msg se sp w =
     (result (deliver msg se sp) w, w\<lparr>trace := trace w @ events (deliver msg se sp) w\<rparr>)"
  by (simp add: deliver_events result_def [of "deliver msg se sp"] deliver_run split: sum.split)

lemma deliver_upd:
  "result (deliver msg se sp) (w\<lparr>trace := t\<rparr>) = result (deliver msg se sp) w"
  "events (deliver msg se sp) (w\<lparr>trace := t\<rparr>) = events (deliver msg se sp) w"
  "result (deliver msg se sp) (w\<lparr>clock_reads := n\<rparr>) = result (deliver msg se sp) w"
  "events (deliver msg se sp) (w\<lparr>clock_reads := n\<rparr>) = events (deliver msg se sp) w"
  by (simp_all add: deliver_events deliver_result attempt_ssl_upd attempt_starttls_upd
        ssl_succeeds_def starttls_succeeds_def cong: sum.case_cong)

lemma attempt_ssl_connects:
  "connects (events (attempt_ssl msg se sp) w) = [SMTP_SSL smtp_host 465]"
  by (simp add: events_def attempt_ssl_def io_simps Let_def split: option.split)

lemma attempt_starttls_connects:
  "connects (events (attempt_starttls msg se sp) w) = [SMTP smtp_host 587]"
  by (simp add: events_def attempt_starttls_def io_simps Let_def split: option.split)

lemma attempt_ssl_sent:
  "sent (events (attempt_ssl msg se sp) w) =
     (if smtp w (Connect (SMTP_SSL smtp_host 465)) = None
         \<and> smtp w (Login (SMTP_SSL smtp_host 465) se sp) = None then [msg] else [])"
  by (simp add: events_def attempt_ssl_def io_simps Let_def split: option.split)

lemma attempt_starttls_sent:
  "sent (events (attempt_starttls msg se sp) w) =
     (if smtp w (Connect (SMTP smtp_host 587)) = None
         \<and> smtp w (Starttls (SMTP smtp_host 587)) = None
         \<and> smtp w (Login (SMTP smtp_host 587) se sp) = None then [msg] else [])"
  by (simp add: events_def attempt_starttls_def io_simps Let_def split: option.split)

lemma attempt_ssl_cases:
  "(result (attempt_ssl msg se sp) w = Inr True \<and> ssl_succeeds w msg se sp)
   \<or> (\<exists>e. result (attempt_ssl msg se sp) w = Inl e \<and> \<not> ssl_succeeds w msg se sp)"
  using attempt_ssl_result [of msg se sp w]
  by (cases "result (attempt_ssl msg se sp) w") auto

lemma attempt_starttls_cases:
  "(result (attempt_starttls msg se sp) w = Inr True \<and> starttls_succeeds w msg se sp)
   \<or> (\<exists>e. result (attempt_starttls msg se sp) w = Inl e \<and> \<not> starttls_succeeds w msg se sp)"
  using attempt_starttls_result [of msg se sp w]
  by (cases "result (attempt_starttls msg se sp) w") auto

lemma deliver_connects:
  "connects (events (deliver msg se sp) w) =
     (if ssl_succeeds w msg se sp then [SMTP_SSL smtp_host 465]
      else [SMTP_SSL smtp_host 465, SMTP smtp_host 587])"
  using attempt_ssl_cases [of msg se sp w]
  by (auto simp add: deliver_events connects_append attempt_ssl_connects attempt_starttls_connects
        notices_silent split: sum.split)

lemma compose_run:
  "compose rf se w =
    (Inr (let base = \<lparr>headers = [(''From'', ''Voice Discovery Bot <'' @ se @ ''>''), (''To'', recipient),
                 (''Subject'', microphone @ '' Voice Effect Discovery Report - '' @ strftime ''%Y%m%d'' (now w (clock_reads w)))],
               parts = [MIMEText (body_text (basename rf) (strftime ''%Y-%m-%d'' (now w (Suc (clock_reads w))))) ''plain'']\<rparr>
          in case read_file w rf of Inl e \<Rightarrow> base
             | Inr data \<Rightarrow> base\<lparr>parts := parts base @ [\<lparr>content_type = ''application/octet-stream'', payload = encodebytes data,
                  part_headers = [(''Content-Transfer-Encoding'', ''base64''), (''Content-Disposition'', ''attachment; filename='' @ basename rf)]\<rparr>]\<rparr>),
     w\<lparr>clock_reads := Suc (Suc (clock_reads w)),
       trace := trace w @ (case read_file w rf of Inl e \<Rightarrow> [Print (''Warning: Could not attach file: '' @ str e)] | Inr data \<Rightarrow> [])\<rparr>)"
  by (simp add: compose_def io_simps Let_def MIMEMultipart_def set_item_def attach_def MIMEBase_def set_payload_def encode_base64_def add_header_def split: sum.split)

lemma compose_events:
  "events (compose rf se) w =
     (case read_file w rf of Inl e \<Rightarrow> [Print (''Warning: Could not attach file: '' @ str e)]
      | Inr data \<Rightarrow> [])"
  by (simp add: events_def compose_run)

lemma compose_frame:
  "\<exists>msg. compose rf se w =
     (Inr msg, w\<lparr>clock_reads := Suc (Suc (clock_reads w)),
                 trace := trace w @ events (compose rf se) w\<rparr>)"
  by (simp add: compose_events compose_run split: sum.split)

lemma send_run:
  assumes "result (compose rf se) w = Inr msg"
  shows "send_discovery_email rf se sp w =
     (result (deliver msg se sp) w,
      w\<lparr>clock_reads := Suc (Suc (clock_reads w)),
        trace := trace w @ events (compose rf se) w @ events (deliver msg se sp) w\<rparr>)"
proof -
  obtain m where m: "compose rf se w =
     (Inr m, w\<lparr>clock_reads := Suc (Suc (clock_reads w)), trace := trace w @ events (compose rf se) w\<rparr>)"
    using compose_frame by blast
  with assms have "m = msg" by (simp add: result_def)
  with m show ?thesis
    by (simp add: send_discovery_email_def bind_apply deliver_frame deliver_upd)
qed

lemma send_result:
  "result (compose rf se) w = Inr msg \<Longrightarrow>
   result (send_discovery_email rf se sp) w = Inr (ssl_succeeds w msg se sp \<or> starttls_succeeds w msg se sp)"
  by (simp add: result_def [of "send_discovery_email rf se sp"] send_run deliver_result)

lemma send_events:
  "result (compose rf se) w = Inr msg \<Longrightarrow>
   events (send_discovery_email rf se sp) w = events (compose rf se) w @ events (deliver msg se sp) w"
  by (simp add: events_def [of "send_discovery_email rf se sp"] send_run)

lemma compose_result:
  "result (compose rf se) w =
    Inr (let base = \<lparr>headers = [(''From'', ''Voice Discovery Bot <'' @ se @ ''>''), (''To'', recipient),
                 (''Subject'', microphone @ '' Voice Effect Discovery Report - '' @ strftime ''%Y%m%d'' (now w (clock_reads w)))],
               parts = [MIMEText (body_text (basename rf) (strftime ''%Y-%m-%d'' (now w (Suc (clock_reads w))))) ''plain'']\<rparr>
          in case read_file w rf of Inl e \<Rightarrow> base
             | Inr data \<Rightarrow> base\<lparr>parts := parts base @ [\<lparr>content_type = ''application/octet-stream'', payload = encodebytes data,
                  part_headers = [(''Content-Transfer-Encoding'', ''base64''), (''Content-Disposition'', ''attachment; filename='' @ basename rf)]\<rparr>]\<rparr>)"
  by (simp add: result_def compose_run)

lemma main_run:
  assumes "length argv = 4" and "path_exists w (argv ! 1)"
  shows "result (main argv) w =
     (case result (send_discovery_email (argv ! 1) (argv ! 2) (argv ! 3)) w of
        Inl e \<Rightarrow> Inl e | Inr success \<Rightarrow> Inr (if success then 0 else 1))"
proof -
  have "main argv w =
      bind (send_discovery_email (argv ! 1) (argv ! 2) (argv ! 3))
        (\<lambda>success. return (if success then 0 else 1)) w"
    using assms by (simp add: main_def Let_def del: One_nat_def)
  then show ?thesis
    by (simp add: result_def bind_apply return_apply split: sum.split prod.split del: One_nat_def)
qed

lemma main_refuses:
  assumes "length argv \<noteq> 4 \<or> \<not> path_exists w (argv ! 1)"
  shows "result (main argv) w = Inr 1"
  using assms
  by (auto simp add: main_def Let_def result_def bind_apply print_apply return_apply
        simp del: One_nat_def)

subsection \<open>The script body and its exit status\<close>

text \<open>
  \<^bold>\<open>C1.\<close> If the report file does not exist, the script prints the not-found line and
  exits with status 1, whatever the other two arguments are; the not-found line is all it
  adds to the trace, so no network call is made.
\<close>
theorem missing_report_exits_without_network:
  assumes "\<not> path_exists w report_file"
  shows "result (main [prog, report_file, sender_email, sender_password]) w = Inr 1
    \<and> events (main [prog, report_file, sender_email, sender_password]) w
        = [Print (cross_mark @ '' Report file not found: '' @ report_file)]
    \<and> net_calls (events (main [prog, report_file, sender_email, sender_password]) w) = []"
  using assms by (simp add: main_def result_def events_def bind_apply print_apply return_apply)

theorem missing_report_exits_without_network_witness:
  "\<not> path_exists (world_with False (Inl (Exception ''No such file or directory'')) accept_all) ''report.md''
   \<and> result (main [''send-email.py'', ''report.md'', ''bot@example.com'', ''app-password''])
         (world_with False (Inl (Exception ''No such file or directory'')) accept_all) = Inr 1
   \<and> net_calls (events (main [''send-email.py'', ''report.md'', ''bot@example.com'', ''app-password''])
         (world_with False (Inl (Exception ''No such file or directory'')) accept_all)) = []"
proof -
  have missing: "\<not> path_exists (world_with False (Inl (Exception ''No such file or directory'')) accept_all) ''report.md''"
    by (simp add: world_with_def)
  from missing_report_exits_without_network [OF missing] missing show ?thesis
    by blast
qed

text \<open>
  \<^bold>\<open>C2.\<close> The exit status is 0 or 1. It is 0 exactly when there are three arguments, the
  report file exists and one of the two attempts succeeds (every call of its \<^verbatim>\<open>try\<close>
  block returns, \<^verbatim>\<open>quit\<close> included); it is 1 exactly when the argument count is
  wrong, the file is missing, or both attempts fail.
\<close>
theorem exit_code_zero_iff_delivered:
  "\<exists>msg. result (compose (argv ! 1) (argv ! 2)) w = Inr msg
     \<and> (result (main argv) w = Inr 0 \<longleftrightarrow>
          length argv = 4 \<and> path_exists w (argv ! 1)
          \<and> (ssl_succeeds w msg (argv ! 2) (argv ! 3) \<or> starttls_succeeds w msg (argv ! 2) (argv ! 3)))
     \<and> (result (main argv) w = Inr 1 \<longleftrightarrow>
          length argv \<noteq> 4 \<or> \<not> path_exists w (argv ! 1)
          \<or> (\<not> ssl_succeeds w msg (argv ! 2) (argv ! 3) \<and> \<not> starttls_succeeds w msg (argv ! 2) (argv ! 3)))
     \<and> (result (main argv) w = Inr 0 \<or> result (main argv) w = Inr 1)"
proof -
  obtain msg where msg: "result (compose (argv ! 1) (argv ! 2)) w = Inr msg"
    using compose_frame [of "argv ! 1" "argv ! 2" w] by (auto simp add: result_def)
  define delivered where
    "delivered = (ssl_succeeds w msg (argv ! 2) (argv ! 3) \<or> starttls_succeeds w msg (argv ! 2) (argv ! 3))"
  have sent: "result (send_discovery_email (argv ! 1) (argv ! 2) (argv ! 3)) w = Inr delivered"
    unfolding delivered_def by (rule send_result [OF msg])
  have code: "result (main argv) w
      = Inr (if length argv = 4 \<and> path_exists w (argv ! 1) \<and> delivered then 0 else 1)"
  proof (cases "length argv = 4 \<and> path_exists w (argv ! 1)")
    case True
    then have "result (main argv) w = Inr (if delivered then 0 else 1)"
      using main_run [of argv w] by (simp only: sent sum.case)
    with True show ?thesis by (simp del: One_nat_def)
  next
    case False
    then have "result (main argv) w = Inr 1"
      using main_refuses [of argv w] by blast
    with False show ?thesis by (auto simp del: One_nat_def)
  qed
  have "(result (main argv) w = Inr 0 \<longleftrightarrow>
          length argv = 4 \<and> path_exists w (argv ! 1) \<and> delivered)
     \<and> (result (main argv) w = Inr 1 \<longleftrightarrow>
          length argv \<noteq> 4 \<or> \<not> path_exists w (argv ! 1) \<or> \<not> delivered)
     \<and> (result (main argv) w = Inr 0 \<or> result (main argv) w = Inr 1)"
    unfolding code by (simp del: One_nat_def)
  then show ?thesis
    using msg unfolding delivered_def by blast
qed

theorem exit_code_zero_iff_delivered_witness:
  "length [''send-email.py'', ''report.txt'', ''bot@example.com'', ''app-password''] = 4
   \<and> path_exists (world_with True (Inr ''report'') refuse_ssl) ''report.txt''
   \<and> result (main [''send-email.py'', ''report.txt'', ''bot@example.com'', ''app-password''])
        (world_with True (Inr ''report'') refuse_ssl) = Inr 0
   \<and> result (main [''send-email.py'', ''report.txt'', ''bot@example.com'', ''app-password''])
        (world_with True (Inr ''report'') reject_login) = Inr 1"
proof -
  let ?argv = "[''send-email.py'', ''report.txt'', ''bot@example.com'', ''app-password'']"
  let ?w = "world_with True (Inr ''report'') refuse_ssl"
  let ?v = "world_with True (Inr ''report'') reject_login"
  have len: "length ?argv = 4" by simp
  have there: "path_exists ?w (?argv ! 1)" by (simp add: world_with_def)
  have tls: "starttls_succeeds ?w msg (?argv ! 2) (?argv ! 3)" for msg
    by (simp add: starttls_succeeds_def world_with_def)
  have no1: "\<not> ssl_succeeds ?v msg (?argv ! 2) (?argv ! 3)" for msg
    by (simp add: ssl_succeeds_def world_with_def)
  have no2: "\<not> starttls_succeeds ?v msg (?argv ! 2) (?argv ! 3)" for msg
    by (simp add: starttls_succeeds_def world_with_def)
  from exit_code_zero_iff_delivered [of ?argv ?w] len there tls
  have delivered: "result (main ?argv) ?w = Inr 0" by blast
  from exit_code_zero_iff_delivered [of ?argv ?v] no1 no2
  have failed: "result (main ?argv) ?v = Inr 1" by blast
  from len there delivered failed show ?thesis by simp
qed

subsection \<open>The fallback from port 465 to port 587\<close>

lemma compose_msg: "\<exists>msg. result (compose rf se) w = Inr msg"
  using compose_frame [of rf se w] by (auto simp add: result_def)

lemma compose_snd:
  "snd (compose rf se w) = w\<lparr>clock_reads := Suc (Suc (clock_reads w)),
       trace := trace w @ events (compose rf se) w\<rparr>"
  using compose_frame [of rf se w] by auto

text \<open>
  \<^bold>\<open>C3.\<close> In every run of \<^verbatim>\<open>send_discovery_email\<close> the connections opened are the
  implicit-TLS one on port 465 and, exactly when attempt 1 (the outer \<^verbatim>\<open>try\<close> block:
  connect, login, send, quit) raises an exception, one STARTTLS connection on port 587
  after it; when attempt 1 returns, attempt 2 is never started, and nothing follows
  attempt 2. Attempt 1 raises exactly when one of its four calls does.
\<close>
theorem fallback_invoked_exactly_once:
  "\<exists>msg. result (compose rf se) w = Inr msg
     \<and> ((\<exists>e. result (attempt_ssl msg se sp) (snd (compose rf se w)) = Inl e)
          \<longleftrightarrow> \<not> ssl_succeeds w msg se sp)
     \<and> (result (attempt_ssl msg se sp) (snd (compose rf se w)) = Inr True
          \<longleftrightarrow> ssl_succeeds w msg se sp)
     \<and> connects (events (send_discovery_email rf se sp) w) =
          (if \<exists>e. result (attempt_ssl msg se sp) (snd (compose rf se w)) = Inl e
           then [SMTP_SSL smtp_host 465, SMTP smtp_host 587]
           else [SMTP_SSL smtp_host 465])"
proof -
  obtain msg where msg: "result (compose rf se) w = Inr msg"
    using compose_msg by blast
  have at: "result (attempt_ssl m se sp) (snd (compose rf se w)) = result (attempt_ssl m se sp) w" for m
    by (simp add: compose_snd attempt_ssl_upd)
  have silent: "connects (events (compose rf se) w) = []"
    by (simp add: compose_events split: sum.split)
  have raised: "(\<exists>e. result (attempt_ssl msg se sp) w = Inl e) \<longleftrightarrow> \<not> ssl_succeeds w msg se sp"
    using attempt_ssl_cases [of msg se sp w] by auto
  have returned: "result (attempt_ssl msg se sp) w = Inr True \<longleftrightarrow> ssl_succeeds w msg se sp"
    using attempt_ssl_cases [of msg se sp w] by auto
  have "connects (events (send_discovery_email rf se sp) w) =
          (if ssl_succeeds w msg se sp then [SMTP_SSL smtp_host 465]
           else [SMTP_SSL smtp_host 465, SMTP smtp_host 587])"
    by (simp add: send_events [OF msg] connects_append silent deliver_connects)
  with msg raised returned show ?thesis
    unfolding at by auto
qed

theorem fallback_invoked_exactly_once_witness:
  "connects (events (send_discovery_email ''report.txt'' ''bot@example.com'' ''app-password'')
      (world_with True (Inr ''report'') refuse_ssl))
     = [SMTP_SSL smtp_host 465, SMTP smtp_host 587]
   \<and> connects (events (send_discovery_email ''report.txt'' ''bot@example.com'' ''app-password'')
      (world_with True (Inr ''report'') accept_all))
     = [SMTP_SSL smtp_host 465]"
proof -
  let ?refused = "world_with True (Inr ''report'') refuse_ssl"
  let ?open = "world_with True (Inr ''report'') accept_all"
  have no: "\<not> ssl_succeeds ?refused msg se sp" for msg se sp
    by (simp add: ssl_succeeds_def world_with_def)
  have yes: "ssl_succeeds ?open msg se sp" for msg se sp
    by (simp add: ssl_succeeds_def world_with_def accept_all_def)
  from fallback_invoked_exactly_once [of "''report.txt''" "''bot@example.com''" ?refused "''app-password''"] no
  have a: "connects (events (send_discovery_email ''report.txt'' ''bot@example.com'' ''app-password'') ?refused)
     = [SMTP_SSL smtp_host 465, SMTP smtp_host 587]"
    by (metis (full_types))
  from fallback_invoked_exactly_once [of "''report.txt''" "''bot@example.com''" ?open "''app-password''"] yes
  have b: "connects (events (send_discovery_email ''report.txt'' ''bot@example.com'' ''app-password'') ?open)
     = [SMTP_SSL smtp_host 465]"
    by (metis (full_types))
  from a b show ?thesis by blast
qed

text \<open>
  \<^bold>\<open>C8.\<close> Whatever the file read and the network calls do, building the message
  returns a message, the two attempts return a boolean, and so does
  \<^verbatim>\<open>send_discovery_email\<close>: none of their exceptions reaches the caller.
\<close>
theorem send_discovery_email_returns_a_boolean:
  "(\<exists>msg. result (compose rf se) w = Inr msg)
   \<and> (\<exists>b. result (deliver msg se sp) w = Inr b)
   \<and> (\<exists>b. result (send_discovery_email rf se sp) w = Inr b)"
proof -
  obtain m where m: "result (compose rf se) w = Inr m"
    using compose_msg by blast
  then show ?thesis
    by (simp add: deliver_result send_result [OF m])
qed

subsection \<open>The attachment\<close>

lemma encodebytes_empty: "encodebytes [] = []"
  by (simp add: encodebytes.simps)

lemma deliver_sent:
  "sent (events (deliver msg se sp) w) =
     (if smtp w (Connect (SMTP_SSL smtp_host 465)) = None
         \<and> smtp w (Login (SMTP_SSL smtp_host 465) se sp) = None then [msg] else [])
     @ (if \<not> ssl_succeeds w msg se sp
         \<and> smtp w (Connect (SMTP smtp_host 587)) = None
         \<and> smtp w (Starttls (SMTP smtp_host 587)) = None
         \<and> smtp w (Login (SMTP smtp_host 587) se sp) = None then [msg] else [])"
  using attempt_ssl_cases [of msg se sp w]
  by (auto simp add: deliver_events sent_append attempt_ssl_sent attempt_starttls_sent
        notices_silent split: sum.split)

lemma compose_sent: "sent (events (compose rf se) w) = []"
  by (simp add: compose_events split: sum.split)

lemma compose_connects: "connects (events (compose rf se) w) = []"
  by (simp add: compose_events split: sum.split)

text \<open>
  \<^bold>\<open>C4.\<close> If opening or reading the report file raises, building the message prints
  the warning and nothing else, and returns a message whose only part is the text body:
  the same text part, under the same headers, as when the file can be read. The delivery
  attempts follow, and \<^verbatim>\<open>send_discovery_email\<close> returns failure only if both of them
  fail.
\<close>
theorem unreadable_report_is_sent_without_attachment:
  assumes "read_file w rf = Inl e"
  shows "\<exists>msg. result (compose rf se) w = Inr msg
     \<and> events (compose rf se) w = [Print (''Warning: Could not attach file: '' @ str e)]
     \<and> parts msg = [MIMEText (body_text (basename rf)
            (strftime ''%Y-%m-%d'' (now w (Suc (clock_reads w))))) ''plain'']
     \<and> (\<forall>f. \<exists>msg'. result (compose rf se) (w\<lparr>read_file := f\<rparr>) = Inr msg'
            \<and> hd (parts msg') = hd (parts msg) \<and> headers msg' = headers msg)
     \<and> events (send_discovery_email rf se sp) w =
          Print (''Warning: Could not attach file: '' @ str e) # events (deliver msg se sp) w
     \<and> hd (connects (events (deliver msg se sp) w)) = SMTP_SSL smtp_host 465
     \<and> result (send_discovery_email rf se sp) w =
          Inr (ssl_succeeds w msg se sp \<or> starttls_succeeds w msg se sp)"
proof -
  obtain msg where msg: "result (compose rf se) w = Inr msg"
    using compose_msg by blast
  have warned: "events (compose rf se) w = [Print (''Warning: Could not attach file: '' @ str e)]"
    using assms by (simp add: compose_events)
  have text_only: "parts msg = [MIMEText (body_text (basename rf)
            (strftime ''%Y-%m-%d'' (now w (Suc (clock_reads w))))) ''plain'']"
    using msg assms by (auto simp add: compose_result Let_def)
  have same: "\<exists>msg'. result (compose rf se) (w\<lparr>read_file := f\<rparr>) = Inr msg'
            \<and> hd (parts msg') = hd (parts msg) \<and> headers msg' = headers msg" for f
    using msg assms by (auto simp add: compose_result Let_def split: sum.split)
  have run: "events (send_discovery_email rf se sp) w =
          Print (''Warning: Could not attach file: '' @ str e) # events (deliver msg se sp) w"
    by (simp add: send_events [OF msg] warned)
  have first: "hd (connects (events (deliver msg se sp) w)) = SMTP_SSL smtp_host 465"
    by (simp add: deliver_connects)
  from msg warned text_only same run first send_result [OF msg, of sp] show ?thesis
    by blast
qed

theorem unreadable_report_is_sent_without_attachment_witness:
  "read_file (world_with True (Inl (Exception ''Permission denied'')) accept_all) ''report.txt''
     = Inl (Exception ''Permission denied'')
   \<and> result (send_discovery_email ''report.txt'' ''bot@example.com'' ''app-password'')
        (world_with True (Inl (Exception ''Permission denied'')) accept_all) = Inr True
   \<and> hd (events (send_discovery_email ''report.txt'' ''bot@example.com'' ''app-password'')
        (world_with True (Inl (Exception ''Permission denied'')) accept_all))
       = Print ''Warning: Could not attach file: Permission denied''"
proof -
  let ?w = "world_with True (Inl (Exception ''Permission denied'')) accept_all"
  have unreadable: "read_file ?w ''report.txt'' = Inl (Exception ''Permission denied'')"
    by (simp add: world_with_def)
  have yes: "ssl_succeeds ?w msg se sp" for msg se sp
    by (simp add: ssl_succeeds_def world_with_def accept_all_def)
  from unreadable_report_is_sent_without_attachment
         [OF unreadable, of "''bot@example.com''" "''app-password''"] yes
  have "result (send_discovery_email ''report.txt'' ''bot@example.com'' ''app-password'') ?w = Inr True
      \<and> hd (events (send_discovery_email ''report.txt'' ''bot@example.com'' ''app-password'') ?w)
       = Print (''Warning: Could not attach file: '' @ str (Exception ''Permission denied''))"
    by auto
  with unreadable show ?thesis by simp
qed

text \<open>
  \<^bold>\<open>C9.\<close> For a report file that reads as zero bytes, building the message prints no
  warning and returns the text part followed by an attachment: generic binary type, empty
  base64 payload, named by the base filename. For any other content the message is the
  same but for the payload, which is the base64 encoding of the content.
\<close>
theorem empty_report_is_attached:
  assumes "read_file w rf = Inr []"
  shows "\<exists>msg. result (compose rf se) w = Inr msg
     \<and> events (compose rf se) w = []
     \<and> parts msg =
         [MIMEText (body_text (basename rf) (strftime ''%Y-%m-%d'' (now w (Suc (clock_reads w))))) ''plain'',
          \<lparr>content_type = ''application/octet-stream'', payload = [],
           part_headers = [(''Content-Transfer-Encoding'', ''base64''),
                           (''Content-Disposition'', ''attachment; filename='' @ basename rf)]\<rparr>]
     \<and> (\<forall>data. \<exists>msg'. result (compose rf se) (w\<lparr>read_file := \<lambda>p. Inr data\<rparr>) = Inr msg'
            \<and> events (compose rf se) (w\<lparr>read_file := \<lambda>p. Inr data\<rparr>) = []
            \<and> headers msg' = headers msg
            \<and> parts msg' = [parts msg ! 0, (parts msg ! 1)\<lparr>payload := encodebytes data\<rparr>])"
proof -
  obtain msg where msg: "result (compose rf se) w = Inr msg"
    using compose_msg by blast
  have quiet: "events (compose rf se) w = []"
    using assms by (simp add: compose_events)
  have both: "parts msg =
         [MIMEText (body_text (basename rf) (strftime ''%Y-%m-%d'' (now w (Suc (clock_reads w))))) ''plain'',
          \<lparr>content_type = ''application/octet-stream'', payload = [],
           part_headers = [(''Content-Transfer-Encoding'', ''base64''),
                           (''Content-Disposition'', ''attachment; filename='' @ basename rf)]\<rparr>]"
    using msg assms by (auto simp add: compose_result Let_def encodebytes_empty)
  have other: "\<exists>msg'. result (compose rf se) (w\<lparr>read_file := \<lambda>p. Inr data\<rparr>) = Inr msg'
            \<and> events (compose rf se) (w\<lparr>read_file := \<lambda>p. Inr data\<rparr>) = []
            \<and> headers msg' = headers msg
            \<and> parts msg' = [parts msg ! 0, (parts msg ! 1)\<lparr>payload := encodebytes data\<rparr>]" for data
    using msg assms by (auto simp add: compose_result compose_events Let_def encodebytes_empty)
  from msg quiet both other show ?thesis
    by blast
qed

theorem empty_report_is_attached_witness:
  "read_file (world_with True (Inr []) accept_all) ''out/report.txt'' = Inr []
   \<and> (\<exists>msg. result (compose ''out/report.txt'' ''bot@example.com'') (world_with True (Inr []) accept_all) = Inr msg
        \<and> events (compose ''out/report.txt'' ''bot@example.com'') (world_with True (Inr []) accept_all) = []
        \<and> length (parts msg) = 2
        \<and> payload (parts msg ! 1) = []
        \<and> part_headers (parts msg ! 1) =
            [(''Content-Transfer-Encoding'', ''base64''),
             (''Content-Disposition'', ''attachment; filename=report.txt'')])"
proof -
  let ?w = "world_with True (Inr []) accept_all"
  have empty: "read_file ?w ''out/report.txt'' = Inr []"
    by (simp add: world_with_def)
  have name: "basename ''out/report.txt'' = ''report.txt''"
    by (simp add: basename_def)
  from empty_report_is_attached [OF empty, of "''bot@example.com''"]
  obtain msg where "result (compose ''out/report.txt'' ''bot@example.com'') ?w = Inr msg"
    and "events (compose ''out/report.txt'' ''bot@example.com'') ?w = []"
    and "parts msg =
         [MIMEText (body_text (basename ''out/report.txt'')
            (strftime ''%Y-%m-%d'' (now ?w (Suc (clock_reads ?w))))) ''plain'',
          \<lparr>content_type = ''application/octet-stream'', payload = [],
           part_headers = [(''Content-Transfer-Encoding'', ''base64''),
                           (''Content-Disposition'', ''attachment; filename='' @ basename ''out/report.txt'')]\<rparr>]"
    by blast
  then have "result (compose ''out/report.txt'' ''bot@example.com'') ?w = Inr msg
        \<and> events (compose ''out/report.txt'' ''bot@example.com'') ?w = []
        \<and> length (parts msg) = 2
        \<and> payload (parts msg ! 1) = []
        \<and> part_headers (parts msg ! 1) =
            [(''Content-Transfer-Encoding'', ''base64''),
             (''Content-Disposition'', ''attachment; filename=report.txt'')]"
    by (simp add: name)
  with empty show ?thesis by blast
qed

subsection \<open>The message sent and where it goes\<close>

lemma send_sent:
  assumes "result (compose rf se) w = Inr msg"
  shows "sent (events (send_discovery_email rf se sp) w) =
     (if smtp w (Connect (SMTP_SSL smtp_host 465)) = None
         \<and> smtp w (Login (SMTP_SSL smtp_host 465) se sp) = None then [msg] else [])
     @ (if \<not> ssl_succeeds w msg se sp
         \<and> smtp w (Connect (SMTP smtp_host 587)) = None
         \<and> smtp w (Starttls (SMTP smtp_host 587)) = None
         \<and> smtp w (Login (SMTP smtp_host 587) se sp) = None then [msg] else [])"
  by (simp only: send_events [OF assms] sent_append compose_sent deliver_sent append_Nil)

lemma send_sent_same:
  assumes "result (compose rf se) w = Inr msg"
  shows "sent (events (send_discovery_email rf se sp) w) =
           replicate (length (sent (events (send_discovery_email rf se sp) w))) msg"
    and "length (sent (events (send_discovery_email rf se sp) w)) \<le> 2"
  by (simp_all add: send_sent [OF assms])

lemma send_connects:
  assumes "result (compose rf se) w = Inr msg"
  shows "connects (events (send_discovery_email rf se sp) w) =
     (if ssl_succeeds w msg se sp then [SMTP_SSL smtp_host 465]
      else [SMTP_SSL smtp_host 465, SMTP smtp_host 587])"
  by (simp add: send_events [OF assms] connects_append compose_connects deliver_connects)

text \<open>
  \<^bold>\<open>C7.\<close> A run builds its message once (the clock is read twice, by the one
  composition) and every \<^verbatim>\<open>send_message\<close> call of the run, at most two, is given that
  message as it was built: attempt 2 sends what attempt 1 sent or would have sent.
\<close>
theorem both_attempts_send_the_composed_message:
  "\<exists>msg. result (compose rf se) w = Inr msg
     \<and> sent (events (send_discovery_email rf se sp) w) =
         replicate (length (sent (events (send_discovery_email rf se sp) w))) msg
     \<and> length (sent (events (send_discovery_email rf se sp) w)) \<le> 2
     \<and> clock_reads (snd (send_discovery_email rf se sp w)) = clock_reads w + 2"
proof -
  obtain msg where msg: "result (compose rf se) w = Inr msg"
    using compose_msg by blast
  have "clock_reads (snd (send_discovery_email rf se sp w)) = clock_reads w + 2"
    by (simp add: send_run [OF msg])
  with msg send_sent_same [OF msg, of sp] show ?thesis
    by blast
qed

theorem both_attempts_send_the_composed_message_witness:
  "\<exists>msg. result (compose ''report.txt'' ''bot@example.com'')
             (world_with True (Inr ''report'') drop_on_quit) = Inr msg
     \<and> sent (events (send_discovery_email ''report.txt'' ''bot@example.com'' ''app-password'')
             (world_with True (Inr ''report'') drop_on_quit)) = [msg, msg]"
proof -
  let ?w = "world_with True (Inr ''report'') drop_on_quit"
  let ?run = "events (send_discovery_email ''report.txt'' ''bot@example.com'' ''app-password'') ?w"
  from both_attempts_send_the_composed_message
         [of "''report.txt''" "''bot@example.com''" ?w "''app-password''"]
  obtain msg where msg: "result (compose ''report.txt'' ''bot@example.com'') ?w = Inr msg"
    and same: "sent ?run = replicate (length (sent ?run)) msg"
    by blast
  have no: "\<not> ssl_succeeds ?w msg ''bot@example.com'' ''app-password''"
    by (simp add: ssl_succeeds_def world_with_def)
  have "sent ?run = [msg] @ [msg]"
    unfolding send_sent [OF msg] using no by (simp add: world_with_def)
  then have "length (sent ?run) = 2"
    by simp
  with same have "sent ?run = [msg, msg]"
    by (simp add: numeral_2_eq_2)
  with msg show ?thesis by blast
qed

lemma compose_to:
  assumes "result (compose rf se) w = Inr m"
  shows "get_all ''To'' m = [recipient]"
proof -
  have "headers m = [(''From'', ''Voice Discovery Bot <'' @ se @ ''>''), (''To'', recipient),
       (''Subject'', microphone @ '' Voice Effect Discovery Report - ''
          @ strftime ''%Y%m%d'' (now w (clock_reads w)))]"
    using assms by (cases "read_file w rf") (auto simp add: compose_result Let_def)
  then show ?thesis
    by (simp add: get_all_def)
qed

lemma send_hosts:
  assumes "result (compose rf se) w = Inr m"
  shows "set (map host (connects (events (send_discovery_email rf se sp) w))) = {smtp_host}"
  by (simp add: send_connects [OF assms])

lemma send_sent_to:
  assumes "result (compose rf se) w = Inr m"
  shows "list_all (\<lambda>m. get_all ''To'' m = [recipient])
      (sent (events (send_discovery_email rf se sp) w))"
  unfolding send_sent [OF assms] by (simp add: compose_to [OF assms])

text \<open>
  \<^bold>\<open>C6.\<close> For any two runs, with any arguments and in any worlds, the message carries
  the same single \<^verbatim>\<open>To\<close> header, the constant recipient, and the set of hostnames
  connected to is the same, the one constant relay host; so is the \<^verbatim>\<open>To\<close> header of
  every message handed to \<^verbatim>\<open>send_message\<close>.
\<close>
theorem recipient_and_relay_are_constants:
  "\<exists>msg1 msg2. result (compose rf1 se1) w1 = Inr msg1 \<and> result (compose rf2 se2) w2 = Inr msg2
     \<and> get_all ''To'' msg1 = get_all ''To'' msg2
     \<and> get_all ''To'' msg1 = [recipient]
     \<and> set (map host (connects (events (send_discovery_email rf1 se1 sp1) w1)))
         = set (map host (connects (events (send_discovery_email rf2 se2 sp2) w2)))
     \<and> set (map host (connects (events (send_discovery_email rf1 se1 sp1) w1))) = {smtp_host}
     \<and> list_all (\<lambda>m. get_all ''To'' m = [recipient])
          (sent (events (send_discovery_email rf1 se1 sp1) w1)
           @ sent (events (send_discovery_email rf2 se2 sp2) w2))"
proof -
  obtain msg1 where msg1: "result (compose rf1 se1) w1 = Inr msg1"
    using compose_msg by blast
  obtain msg2 where msg2: "result (compose rf2 se2) w2 = Inr msg2"
    using compose_msg by blast
  have to: "get_all ''To'' msg1 = get_all ''To'' msg2" "get_all ''To'' msg1 = [recipient]"
    by (simp_all only: compose_to [OF msg1] compose_to [OF msg2])
  have hosts: "set (map host (connects (events (send_discovery_email rf1 se1 sp1) w1)))
         = set (map host (connects (events (send_discovery_email rf2 se2 sp2) w2)))"
      "set (map host (connects (events (send_discovery_email rf1 se1 sp1) w1))) = {smtp_host}"
    by (simp_all only: send_hosts [OF msg1] send_hosts [OF msg2])
  have all: "list_all (\<lambda>m. get_all ''To'' m = [recipient])
          (sent (events (send_discovery_email rf1 se1 sp1) w1)
           @ sent (events (send_discovery_email rf2 se2 sp2) w2))"
    by (simp only: list_all_append send_sent_to [OF msg1] send_sent_to [OF msg2] simp_thms)
  show ?thesis
    by (intro exI conjI) (fact msg1 msg2 to hosts all)+
qed

subsection \<open>The password\<close>

lemma attempt_ssl_erase:
  assumes "smtp w (Login (SMTP_SSL smtp_host 465) se p1) = smtp w (Login (SMTP_SSL smtp_host 465) se p2)"
  shows "map erase_password (events (attempt_ssl msg se p1) w)
           = map erase_password (events (attempt_ssl msg se p2) w)"
    and "result (attempt_ssl msg se p1) w = result (attempt_ssl msg se p2) w"
  using assms
  by (simp_all add: events_def result_def attempt_ssl_def io_simps Let_def split: option.split)

lemma attempt_starttls_erase:
  assumes "smtp w (Login (SMTP smtp_host 587) se p1) = smtp w (Login (SMTP smtp_host 587) se p2)"
  shows "map erase_password (events (attempt_starttls msg se p1) w)
           = map erase_password (events (attempt_starttls msg se p2) w)"
    and "result (attempt_starttls msg se p1) w = result (attempt_starttls msg se p2) w"
  using assms
  by (simp_all add: events_def result_def attempt_starttls_def io_simps Let_def split: option.split)

lemma notices_erase:
  "map erase_password (fallback_notice e) = fallback_notice e"
  "map erase_password (failure_notice e) = failure_notice e"
  by (simp_all add: fallback_notice_def failure_notice_def)

lemma compose_erase:
  "map erase_password (events (compose rf se) w) = events (compose rf se) w"
  by (simp add: compose_events split: sum.split)

lemma deliver_erase:
  assumes "smtp w (Login (SMTP_SSL smtp_host 465) se p1) = smtp w (Login (SMTP_SSL smtp_host 465) se p2)"
    and "smtp w (Login (SMTP smtp_host 587) se p1) = smtp w (Login (SMTP smtp_host 587) se p2)"
  shows "map erase_password (events (deliver msg se p1) w)
           = map erase_password (events (deliver msg se p2) w)"
  by (simp add: deliver_events attempt_ssl_erase [OF assms(1)] attempt_starttls_erase [OF assms(2)]
        notices_erase split: sum.split)

text \<open>
  \<^bold>\<open>C10.\<close> The message is built from the report path, the sender address, the clock
  and the file alone: runs that differ only in the password hand the same message to every
  \<^verbatim>\<open>send_message\<close> call. The password is passed to \<^verbatim>\<open>login\<close> and nowhere else: if
  the relay answers both logins alike, the two runs print the same lines, make the same
  calls but for the password argument of \<^verbatim>\<open>login\<close>, and return the same result.
\<close>
theorem password_reaches_only_login:
  "\<exists>msg. result (compose rf se) w = Inr msg
     \<and> sent (events (send_discovery_email rf se p1) w) =
         replicate (length (sent (events (send_discovery_email rf se p1) w))) msg
     \<and> sent (events (send_discovery_email rf se p2) w) =
         replicate (length (sent (events (send_discovery_email rf se p2) w))) msg
     \<and> (smtp w (Login (SMTP_SSL smtp_host 465) se p1) = smtp w (Login (SMTP_SSL smtp_host 465) se p2)
        \<and> smtp w (Login (SMTP smtp_host 587) se p1) = smtp w (Login (SMTP smtp_host 587) se p2)
        \<longrightarrow> map erase_password (events (send_discovery_email rf se p1) w)
              = map erase_password (events (send_discovery_email rf se p2) w)
            \<and> result (send_discovery_email rf se p1) w = result (send_discovery_email rf se p2) w)"
proof -
  obtain msg where msg: "result (compose rf se) w = Inr msg"
    using compose_msg by blast
  have alike: "map erase_password (events (send_discovery_email rf se p1) w)
              = map erase_password (events (send_discovery_email rf se p2) w)
            \<and> result (send_discovery_email rf se p1) w = result (send_discovery_email rf se p2) w"
    if a: "smtp w (Login (SMTP_SSL smtp_host 465) se p1) = smtp w (Login (SMTP_SSL smtp_host 465) se p2)"
      and b: "smtp w (Login (SMTP smtp_host 587) se p1) = smtp w (Login (SMTP smtp_host 587) se p2)"
  proof -
    have "ssl_succeeds w msg se p1 = ssl_succeeds w msg se p2"
      and "starttls_succeeds w msg se p1 = starttls_succeeds w msg se p2"
      using a b by (simp_all add: ssl_succeeds_def starttls_succeeds_def)
    then show ?thesis
      by (simp add: send_events [OF msg] send_result [OF msg] deliver_erase [OF a b])
  qed
  from msg send_sent_same(1) [OF msg, of p1] send_sent_same(1) [OF msg, of p2] alike
  show ?thesis by blast
qed

theorem password_reaches_only_login_witness:
  "smtp (world_with True (Inr ''report'') accept_all) (Login (SMTP_SSL smtp_host 465) ''bot@example.com'' ''first'')
     = smtp (world_with True (Inr ''report'') accept_all) (Login (SMTP_SSL smtp_host 465) ''bot@example.com'' ''second'')
   \<and> smtp (world_with True (Inr ''report'') accept_all) (Login (SMTP smtp_host 587) ''bot@example.com'' ''first'')
     = smtp (world_with True (Inr ''report'') accept_all) (Login (SMTP smtp_host 587) ''bot@example.com'' ''second'')
   \<and> map erase_password (events (send_discovery_email ''report.txt'' ''bot@example.com'' ''first'')
        (world_with True (Inr ''report'') accept_all))
     = map erase_password (events (send_discovery_email ''report.txt'' ''bot@example.com'' ''second'')
        (world_with True (Inr ''report'') accept_all))
   \<and> result (send_discovery_email ''report.txt'' ''bot@example.com'' ''first'')
        (world_with True (Inr ''report'') accept_all)
     = result (send_discovery_email ''report.txt'' ''bot@example.com'' ''second'')
        (world_with True (Inr ''report'') accept_all)"
proof -
  let ?w = "world_with True (Inr ''report'') accept_all"
  have a: "smtp ?w (Login (SMTP_SSL smtp_host 465) ''bot@example.com'' ''first'')
     = smtp ?w (Login (SMTP_SSL smtp_host 465) ''bot@example.com'' ''second'')"
    by (simp add: world_with_def accept_all_def)
  have b: "smtp ?w (Login (SMTP smtp_host 587) ''bot@example.com'' ''first'')
     = smtp ?w (Login (SMTP smtp_host 587) ''bot@example.com'' ''second'')"
    by (simp add: world_with_def accept_all_def)
  from password_reaches_only_login
         [of "''report.txt''" "''bot@example.com''" ?w "''first''" "''second''"] a b
  show ?thesis by blast
qed

subsection \<open>Subject and body\<close>

lemma of_char_digit_char: "k < 10 \<Longrightarrow> (of_char (digit_char k) :: nat) = 48 + k"
  by (simp add: digit_char_def)

lemma length_zero_padded: "length (zero_padded k n) = k"
  by (induction k arbitrary: n) simp_all

lemma digits_zero_padded: "list_all is_digit (zero_padded k n)"
  by (induction k arbitrary: n) (simp_all add: is_digit_def of_char_digit_char)

lemma decimal_value_snoc: "decimal_value (s @ [c]) = 10 * decimal_value s + (of_char c - 48)"
  by (simp add: decimal_value_def)

lemma value_zero_padded: "n < 10 ^ k \<Longrightarrow> decimal_value (zero_padded k n) = n"
proof (induction k arbitrary: n)
  case 0
  then show ?case by (simp add: decimal_value_def)
next
  case (Suc k)
  then have "n div 10 < 10 ^ k"
    by (simp add: less_mult_imp_div_less mult.commute)
  then have "decimal_value (zero_padded k (n div 10)) = n div 10"
    by (rule Suc.IH)
  then show ?case
    by (simp add: decimal_value_snoc of_char_digit_char)
qed

lemma zero_padded_decimal: "n < 10 ^ k \<Longrightarrow> decimal_of_width k n (zero_padded k n)"
  by (simp add: decimal_of_width_def length_zero_padded digits_zero_padded value_zero_padded)

lemma zero_padded_2: "zero_padded 2 n = [digit_char (n div 10 mod 10), digit_char (n mod 10)]"
proof -
  have "zero_padded (Suc (Suc 0)) n = [digit_char (n div 10 mod 10), digit_char (n mod 10)]"
    by simp
  then show ?thesis by (simp only: numeral_2_eq_2)
qed

lemma zero_padded_4:
  "zero_padded 4 n = [digit_char (n div 10 div 10 div 10 mod 10), digit_char (n div 10 div 10 mod 10),
     digit_char (n div 10 mod 10), digit_char (n mod 10)]"
proof -
  have four: "(4 :: nat) = Suc (Suc (Suc (Suc 0)))" by simp
  have "zero_padded (Suc (Suc (Suc (Suc 0)))) n =
    [digit_char (n div 10 div 10 div 10 mod 10), digit_char (n div 10 div 10 mod 10),
     digit_char (n div 10 mod 10), digit_char (n mod 10)]"
    by simp
  then show ?thesis by (simp only: four)
qed

lemma strftime_compact:
  "strftime ''%Y%m%d'' d = zero_padded 4 (year d) @ zero_padded 2 (month d) @ zero_padded 2 (day d)"
  by (simp add: strftime.simps)

lemma strftime_hyphen:
  "strftime ''%Y-%m-%d'' d =
     zero_padded 4 (year d) @ ''-'' @ zero_padded 2 (month d) @ ''-'' @ zero_padded 2 (day d)"
  by (simp add: strftime.simps)

lemma march_7_compact: "strftime ''%Y%m%d'' march_7 = ''20240307''"
  by (simp add: strftime_compact zero_padded_4 zero_padded_2 march_7_def digit_char_def
        char_of_def bit_iff_odd)

lemma march_7_hyphen: "strftime ''%Y-%m-%d'' march_7 = ''2024-03-07''"
  by (simp add: strftime_hyphen zero_padded_4 zero_padded_2 march_7_def digit_char_def
        char_of_def bit_iff_odd)

lemma sublist_of_line:
  assumes "l \<in> set ls" and "sublist x l"
  shows "sublist x (concat (map (\<lambda>l. l @ [c]) ls))"
proof -
  from assms(1) obtain as bs where ls: "ls = as @ l # bs"
    by (auto simp add: in_set_conv_decomp)
  from assms(2) obtain ps ss where l: "l = ps @ x @ ss"
    by (auto simp add: sublist_def)
  have "concat (map (\<lambda>l. l @ [c]) ls)
      = (concat (map (\<lambda>l. l @ [c]) as) @ ps) @ x @ (ss @ [c] @ concat (map (\<lambda>l. l @ [c]) bs))"
    by (simp add: ls l)
  then show ?thesis
    by (simp only: sublist_appendI)
qed

lemma body_text_names_report: "sublist r (body_text r d)"
proof -
  have "sublist r ((bar_chart @ '' Discovery Report: '') @ r)"
    by (rule sublist_append_leftI)
  then have "sublist r (bar_chart @ '' Discovery Report: '' @ r)"
    by (simp only: append_assoc)
  then show ?thesis
    unfolding body_text_def by (rule sublist_of_line [rotated]) simp
qed

lemma body_text_shows_date: "sublist d (body_text r d)"
proof -
  have "sublist d ((calendar @ '' Date: '') @ d)"
    by (rule sublist_append_leftI)
  then have "sublist d (calendar @ '' Date: '' @ d)"
    by (simp only: append_assoc)
  then show ?thesis
    unfolding body_text_def by (rule sublist_of_line [rotated]) simp
qed

lemma compose_headers:
  assumes "result (compose rf se) w = Inr m"
  shows "headers m = [(''From'', ''Voice Discovery Bot <'' @ se @ ''>''), (''To'', recipient),
       (''Subject'', microphone @ '' Voice Effect Discovery Report - ''
          @ strftime ''%Y%m%d'' (now w (clock_reads w)))]"
  using assms by (cases "read_file w rf") (auto simp add: compose_result Let_def)

lemma compose_subject:
  assumes "result (compose rf se) w = Inr m"
  shows "get_all ''Subject'' m =
    [microphone @ '' Voice Effect Discovery Report - '' @ strftime ''%Y%m%d'' (now w (clock_reads w))]"
  by (simp add: get_all_def compose_headers [OF assms])

lemma compose_text_part:
  assumes "result (compose rf se) w = Inr m"
  shows "parts m \<noteq> []"
    and "payload (hd (parts m)) =
      body_text (basename rf) (strftime ''%Y-%m-%d'' (now w (Suc (clock_reads w))))"
  using assms by (cases "read_file w rf"; auto simp add: compose_result Let_def MIMEText_def)+

lemma valid_datetime_decimals:
  assumes "valid_datetime t"
  shows "decimal_of_width 4 (year t) (zero_padded 4 (year t))"
    and "decimal_of_width 2 (month t) (zero_padded 2 (month t))"
    and "decimal_of_width 2 (day t) (zero_padded 2 (day t))"
  using assms by (simp_all add: valid_datetime_def zero_padded_decimal)

text \<open>
  \<^bold>\<open>C5.\<close> For every report path, with the clock showing valid dates: the subject
  contains the date of the first clock reading as four digits of year, two of month and
  two of day, unseparated; the text body contains the base filename of the path and the
  date of the second clock reading as year, month and day joined by hyphens. A run with
  the same path and the same two readings, in any other world and for any other sender,
  gives the same subject and the same body.
\<close>
theorem subject_and_body_embed_date_and_name:
  assumes "valid_datetime (now w (clock_reads w))"
    and "valid_datetime (now w (Suc (clock_reads w)))"
  shows "\<exists>msg subject body y m d y' m' d'.
      result (compose rf se) w = Inr msg
    \<and> get_all ''Subject'' msg = [subject] \<and> parts msg \<noteq> [] \<and> payload (hd (parts msg)) = body
    \<and> decimal_of_width 4 (year (now w (clock_reads w))) y
    \<and> decimal_of_width 2 (month (now w (clock_reads w))) m
    \<and> decimal_of_width 2 (day (now w (clock_reads w))) d
    \<and> y @ m @ d = strftime ''%Y%m%d'' (now w (clock_reads w))
    \<and> sublist (y @ m @ d) subject
    \<and> decimal_of_width 4 (year (now w (Suc (clock_reads w)))) y'
    \<and> decimal_of_width 2 (month (now w (Suc (clock_reads w)))) m'
    \<and> decimal_of_width 2 (day (now w (Suc (clock_reads w)))) d'
    \<and> y' @ ''-'' @ m' @ ''-'' @ d' = strftime ''%Y-%m-%d'' (now w (Suc (clock_reads w)))
    \<and> sublist (y' @ ''-'' @ m' @ ''-'' @ d') body
    \<and> sublist (basename rf) body
    \<and> (\<forall>w' se'. now w' (clock_reads w') = now w (clock_reads w)
            \<and> now w' (Suc (clock_reads w')) = now w (Suc (clock_reads w))
          \<longrightarrow> (\<exists>msg'. result (compose rf se') w' = Inr msg'
                \<and> get_all ''Subject'' msg' = [subject] \<and> payload (hd (parts msg')) = body))"
proof -
  let ?t1 = "now w (clock_reads w)" and ?t2 = "now w (Suc (clock_reads w))"
  let ?subject = "microphone @ '' Voice Effect Discovery Report - '' @ strftime ''%Y%m%d'' ?t1"
  let ?body = "body_text (basename rf) (strftime ''%Y-%m-%d'' ?t2)"
  obtain msg where msg: "result (compose rf se) w = Inr msg"
    using compose_msg by blast
  have subject: "get_all ''Subject'' msg = [?subject]"
    by (rule compose_subject [OF msg])
  have body: "parts msg \<noteq> []" "payload (hd (parts msg)) = ?body"
    by (rule compose_text_part [OF msg])+
  have compact: "zero_padded 4 (year ?t1) @ zero_padded 2 (month ?t1) @ zero_padded 2 (day ?t1)
      = strftime ''%Y%m%d'' ?t1"
    by (simp only: strftime_compact)
  have hyphen: "zero_padded 4 (year ?t2) @ ''-'' @ zero_padded 2 (month ?t2) @ ''-'' @ zero_padded 2 (day ?t2)
      = strftime ''%Y-%m-%d'' ?t2"
    by (simp only: strftime_hyphen)
  have "sublist (strftime ''%Y%m%d'' ?t1)
      ((microphone @ '' Voice Effect Discovery Report - '') @ strftime ''%Y%m%d'' ?t1)"
    by (rule sublist_append_leftI)
  then have in_subject: "sublist (strftime ''%Y%m%d'' ?t1) ?subject"
    by (simp only: append_assoc)
  have in_body: "sublist (strftime ''%Y-%m-%d'' ?t2) ?body"
    by (rule body_text_shows_date)
  have name: "sublist (basename rf) ?body"
    by (rule body_text_names_report)
  have same: "\<exists>msg'. result (compose rf se') w' = Inr msg'
        \<and> get_all ''Subject'' msg' = [?subject] \<and> payload (hd (parts msg')) = ?body"
    if "now w' (clock_reads w') = ?t1 \<and> now w' (Suc (clock_reads w')) = ?t2" for w' se'
  proof -
    obtain msg' where msg': "result (compose rf se') w' = Inr msg'"
      using compose_msg by blast
    from compose_subject [OF msg'] compose_text_part(2) [OF msg'] that msg'
    show ?thesis by simp
  qed
  show ?thesis
    apply (rule exI [of _ msg], rule exI [of _ ?subject], rule exI [of _ ?body])
    apply (rule exI [of _ "zero_padded 4 (year ?t1)"], rule exI [of _ "zero_padded 2 (month ?t1)"],
           rule exI [of _ "zero_padded 2 (day ?t1)"])
    apply (rule exI [of _ "zero_padded 4 (year ?t2)"], rule exI [of _ "zero_padded 2 (month ?t2)"],
           rule exI [of _ "zero_padded 2 (day ?t2)"])
    apply (simp only: compact hyphen)
    apply (intro conjI allI impI)
    apply (fact msg subject body valid_datetime_decimals [OF assms(1)]
             valid_datetime_decimals [OF assms(2)] in_subject in_body name refl same)+
    done
qed

theorem subject_and_body_embed_date_and_name_witness:
  "valid_datetime (now (world_with True (Inr ''report'') accept_all)
      (clock_reads (world_with True (Inr ''report'') accept_all)))
   \<and> valid_datetime (now (world_with True (Inr ''report'') accept_all)
      (Suc (clock_reads (world_with True (Inr ''report'') accept_all))))
   \<and> (\<exists>msg subject body.
        result (compose ''out/report.txt'' ''bot@example.com'')
          (world_with True (Inr ''report'') accept_all) = Inr msg
      \<and> get_all ''Subject'' msg = [subject] \<and> payload (hd (parts msg)) = body
      \<and> sublist ''20240307'' subject
      \<and> sublist ''2024-03-07'' body
      \<and> sublist ''report.txt'' body)"
proof -
  let ?w = "world_with True (Inr ''report'') accept_all"
  have t1: "now ?w (clock_reads ?w) = march_7" and t2: "now ?w (Suc (clock_reads ?w)) = march_7"
    by (simp_all add: world_with_def)
  have valid: "valid_datetime march_7"
    by (simp add: valid_datetime_def march_7_def)
  have v1: "valid_datetime (now ?w (clock_reads ?w))"
    and v2: "valid_datetime (now ?w (Suc (clock_reads ?w)))"
    by (simp_all only: t1 t2 valid)
  have name: "basename ''out/report.txt'' = ''report.txt''"
    by (simp add: basename_def)
  from subject_and_body_embed_date_and_name [OF v1 v2, of "''out/report.txt''" "''bot@example.com''"]
  obtain msg subject body y m d y' m' d' where
    "result (compose ''out/report.txt'' ''bot@example.com'') ?w = Inr msg"
    "get_all ''Subject'' msg = [subject]" "payload (hd (parts msg)) = body"
    "y @ m @ d = strftime ''%Y%m%d'' (now ?w (clock_reads ?w))"
    "sublist (y @ m @ d) subject"
    "y' @ ''-'' @ m' @ ''-'' @ d' = strftime ''%Y-%m-%d'' (now ?w (Suc (clock_reads ?w)))"
    "sublist (y' @ ''-'' @ m' @ ''-'' @ d') body"
    "sublist (basename ''out/report.txt'') body"
    by blast
  then have "result (compose ''out/report.txt'' ''bot@example.com'') ?w = Inr msg
      \<and> get_all ''Subject'' msg = [subject] \<and> payload (hd (parts msg)) = body
      \<and> sublist ''20240307'' subject
      \<and> sublist ''2024-03-07'' body
      \<and> sublist ''report.txt'' body"
    by (simp only: t1 t2 march_7_compact march_7_hyphen name simp_thms)
  with v1 v2 show ?thesis by blast
qed

end
